theory Spec2Isabelle
  imports Main
begin

section \<open>Arrays\<close>

text \<open>
  A numpy array is its shape together with its elements in row-major (C) order, which is
  how numpy stores a contiguous array. The element type is left open. An array is
  well formed when it holds as many elements as its shape says.
\<close>

record 'a ndarray =
  shape :: "nat list"
  data :: "'a list"

definition well_formed :: "'a ndarray \<Rightarrow> bool" where
  "well_formed a = (length (data a) = prod_list (shape a))"

definition ndim :: "'a ndarray \<Rightarrow> nat" where
  "ndim a = length (shape a)"

text \<open>The exceptions of the two source files, each with its message; an AttributeError
  carries the name of the attribute that is missing. \<open>External\<close> is an exception raised
  inside the inference runtime, which the code passes on untouched.\<close>

datatype error =
    NotImplementedError string
  | AssertionError string
  | ValueError string
  | IndexError string
  | AttributeError string
  | External string

text \<open>\<^verbatim>\<open>a.squeeze()\<close>: every axis of length one is dropped; the elements stay as they are.\<close>

definition squeeze :: "'a ndarray \<Rightarrow> 'a ndarray" where
  "squeeze a = \<lparr>shape = filter (\<lambda>d. d \<noteq> 1) (shape a), data = data a\<rparr>"

text \<open>\<^verbatim>\<open>a.squeeze(0)\<close>: only the leading axis is dropped, and numpy raises when that axis
  is missing or is not of length one.\<close>

definition squeeze_axis0 :: "'a ndarray \<Rightarrow> error + 'a ndarray" where
  "squeeze_axis0 a =
     (case shape a of
        [] \<Rightarrow> Inl (ValueError ''axis 0 is out of bounds for array of dimension 0'')
      | n # rest \<Rightarrow>
          if n = 1 then Inr \<lparr>shape = rest, data = data a\<rparr>
          else Inl (ValueError
            ''cannot select an axis to squeeze out which has size not equal to one''))"

text \<open>\<^verbatim>\<open>np.expand_dims(a, axis=0)\<close>: a leading axis of length one is added.\<close>

definition expand_dims0 :: "'a ndarray \<Rightarrow> 'a ndarray" where
  "expand_dims0 a = \<lparr>shape = 1 # shape a, data = data a\<rparr>"

text \<open>\<^verbatim>\<open>np.array(imgs)\<close> on a list of arrays: arrays of one common shape are stacked in the
  order of the list along a new leading axis; the empty list gives the empty
  one-dimensional array; arrays of differing shapes make numpy raise.\<close>

definition np_array :: "'a ndarray list \<Rightarrow> error + 'a ndarray" where
  "np_array imgs =
     (case imgs of
        [] \<Rightarrow> Inr \<lparr>shape = [0], data = []\<rparr>
      | x # xs \<Rightarrow>
          if list_all (\<lambda>y. shape y = shape x) xs
          then Inr \<lparr>shape = length imgs # shape x, data = concat (map data imgs)\<rparr>
          else Inl (ValueError ''setting an array element with a sequence''))"

text \<open>\<^verbatim>\<open>a[k]\<close> for a non-negative \<open>k\<close>: the \<open>k\<close>-th item along the leading axis.\<close>

definition getitem :: "'a ndarray \<Rightarrow> nat \<Rightarrow> error + 'a ndarray" where
  "getitem a k =
     (case shape a of
        [] \<Rightarrow> Inl (IndexError ''too many indices for array'')
      | n # rest \<Rightarrow>
          if k < n
          then Inr \<lparr>shape = rest,
                    data = take (prod_list rest) (drop (k * prod_list rest) (data a))\<rparr>
          else Inl (IndexError ''index is out of bounds for axis 0''))"

text \<open>\<^verbatim>\<open>a[0, :]\<close>: the first item along the leading axis of an array that has at least two
  axes. On an array with fewer axes numpy raises for the surplus index, and on an array
  with no rows for the index 0.\<close>

definition getitem_0_all :: "'a ndarray \<Rightarrow> error + 'a ndarray" where
  "getitem_0_all a =
     (if length (shape a) < 2 then Inl (IndexError ''too many indices for array'')
      else getitem a 0)"

section \<open>Demography\<close>

text \<open>
  The inference object held by a facial attribute model. Calling it
  (\<^verbatim>\<open>self.model(x, training=flag)\<close>) is the legacy path, \<^verbatim>\<open>predict_on_batch\<close> the
  native batch path. Both belong to the neural network runtime, so they are fields of
  the record: any pair of functions may stand there, and either may raise.
\<close>

record 'a keras_model =
  model_call :: "'a ndarray \<Rightarrow> bool \<Rightarrow> string + 'a ndarray"
  predict_on_batch :: "'a ndarray \<Rightarrow> string + 'a ndarray"

text \<open>An attribute of a Python object: assigned to a value, or never assigned, in which
  case reading it raises AttributeError.\<close>

datatype 'v attribute =
    Unassigned
  | Assigned 'v

text \<open>The class body only annotates \<^verbatim>\<open>model: Model\<close> and \<^verbatim>\<open>model_name: str\<close>; neither gets a
  value there, so an instance has a \<^verbatim>\<open>model_name\<close> only once a subclass has assigned one.
  The value assigned is a string or Python's \<^verbatim>\<open>None\<close>.\<close>

record 'a demography =
  model :: "'a keras_model"
  model_name :: "string option attribute"

text \<open>Python's truth value of the name: \<^verbatim>\<open>None\<close> and the empty string are false.\<close>

definition truthy :: "string option \<Rightarrow> bool" where
  "truthy s = (case s of None \<Rightarrow> False | Some t \<Rightarrow> t \<noteq> [])"

text \<open>What the dispatcher asked of the inference object, in order.\<close>

datatype 'a invocation =
    LegacyCall "'a ndarray" bool
  | BatchCall "'a ndarray"

text \<open>\<^verbatim>\<open>Demography._predict_internal\<close>. The result comes with the list of the calls made
  to the inference object before the function returned or raised. Its first statement
  reads \<^verbatim>\<open>self.model_name\<close>, which raises when the attribute was never assigned.\<close>

definition predict_internal ::
  "'a demography \<Rightarrow> 'a ndarray \<Rightarrow> (error + 'a ndarray) \<times> 'a invocation list" where
  "predict_internal self img_batch =
     (case model_name self of
        Unassigned \<Rightarrow> (Inl (AttributeError ''model_name''), [])
      | Assigned name \<Rightarrow>
          if \<not> truthy name
          then (Inl (NotImplementedError ''virtual method must not be called directly''), [])
          else if ndim img_batch \<noteq> 4
          then (Inl (AssertionError ''expected 4-dimensional tensor input''), [])
          else if shape img_batch ! 0 = 1
          then (case squeeze_axis0 img_batch of
                  Inl e \<Rightarrow> (Inl e, [])
                | Inr img \<Rightarrow>
                    (case model_call (model self) img False of
                       Inl m \<Rightarrow> Inl (External m)
                     | Inr out \<Rightarrow> getitem_0_all out,
                     [LegacyCall img False]))
          else (case predict_on_batch (model self) img_batch of
                  Inl m \<Rightarrow> Inl (External m)
                | Inr out \<Rightarrow> Inr out,
                [BatchCall img_batch]))"

text \<open>The argument of \<^verbatim>\<open>_preprocess_batch_or_single_input\<close>: one array or a list of arrays.\<close>

datatype 'a image_input =
    Single "'a ndarray"
  | ImageList "'a ndarray list"

text \<open>\<^verbatim>\<open>Demography._preprocess_batch_or_single_input\<close>.\<close>

definition preprocess_batch_or_single_input :: "'a image_input \<Rightarrow> error + 'a ndarray" where
  "preprocess_batch_or_single_input img =
     (case (case img of ImageList l \<Rightarrow> np_array l | Single a \<Rightarrow> Inr a) of
        Inl e \<Rightarrow> Inl e
      | Inr image_batch \<Rightarrow>
          (let image_batch = squeeze image_batch
           in if length (shape image_batch) = 3
              then Inr (expand_dims0 image_batch)
              else Inr image_batch))"

section \<open>The Buffalo L recognition model\<close>

text \<open>A list cut into consecutive pieces of \<open>n\<close> elements (the last one may be shorter).\<close>

fun chunks :: "nat \<Rightarrow> 'a list \<Rightarrow> 'a list list" where
  "chunks n [] = []"
| "chunks n (x # xs) =
     (if n = 0 then [] else take n (x # xs) # chunks n (drop n (x # xs)))"

text \<open>\<^verbatim>\<open>img[:, :, ::-1]\<close> on a three-dimensional image: the last axis is reversed, that is,
  each run of \<open>shape[2]\<close> consecutive elements. Only three-dimensional images reach
  this line of \<^verbatim>\<open>preprocess\<close>.\<close>

definition reverse_channels :: "'a ndarray \<Rightarrow> 'a ndarray" where
  "reverse_channels img =
     \<lparr>shape = shape img, data = concat (map rev (chunks (shape img ! 2) (data img)))\<rparr>"

text \<open>What \<^verbatim>\<open>get_feat\<close> of the InsightFace model may hand back: an array, a list (of
  scalars or arrays, each an array here, a scalar being the array of shape \<open>()\<close>), or
  something else.\<close>

datatype 'a embedding =
    EmbArray "'a ndarray"
  | EmbList "'a ndarray list"
  | EmbOther

record 'a buffalo_l =
  buffalo_model :: "'a ndarray \<Rightarrow> string + 'a embedding"
  input_shape :: "nat \<times> nat"
  output_shape :: nat

text \<open>\<^verbatim>\<open>Buffalo_L.preprocess\<close>: the guard on the shape first, the channel conversion after it.\<close>

definition preprocess :: "'a ndarray \<Rightarrow> error + 'a ndarray" where
  "preprocess img =
     (case (if length (shape img) = 4
            then (if shape img ! 0 = 1 then getitem img 0
                  else Inl (ValueError
                    ''Buffalo_L model expects a single image, not a batch.''))
            else if length (shape img) \<noteq> 3 \<or> shape img \<noteq> [112, 112, 3]
            then Inl (ValueError ''Input image must have shape (112, 112, 3).'')
            else Inr img) of
        Inl e \<Rightarrow> Inl e
      | Inr img \<Rightarrow> Inr (reverse_channels img))"

text \<open>\<^verbatim>\<open>Buffalo_L.forward\<close>, with the list of the images handed to \<^verbatim>\<open>get_feat\<close>. The
  message of the last error ends with the type of the embedding in the source.\<close>

definition forward ::
  "'a buffalo_l \<Rightarrow> 'a ndarray \<Rightarrow> (error + 'a list) \<times> 'a ndarray list" where
  "forward self img =
     (case preprocess img of
        Inl e \<Rightarrow> (Inl e, [])
      | Inr img \<Rightarrow>
          (case buffalo_model self img of
             Inl m \<Rightarrow> Inl (External m)
           | Inr (EmbArray embedding) \<Rightarrow>
               if length (shape embedding) > 1 then Inr (data embedding)
               else Inl (ValueError ''Unexpected embedding type'')
           | Inr (EmbList embedding) \<Rightarrow>
               (case np_array embedding of
                  Inl e \<Rightarrow> Inl e
                | Inr a \<Rightarrow> Inr (data a))
           | Inr EmbOther \<Rightarrow> Inl (ValueError ''Unexpected embedding type''),
           [img]))"

section \<open>Facts about the array operations\<close>

lemma squeeze_axis0_unit:
  "shape a = 1 # rest \<Longrightarrow> squeeze_axis0 a = Inr \<lparr>shape = rest, data = data a\<rparr>"
  by (simp add: squeeze_axis0_def)

lemma getitem_0_unit:
  fixes a :: "'a ndarray"
  assumes "shape a = 1 # rest" and "well_formed a"
  shows "getitem a 0 = Inr \<lparr>shape = rest, data = data a\<rparr>"
  using assms by (simp add: getitem_def well_formed_def)

lemma getitem_0_all_matrix:
  "shape out = [r, d] \<Longrightarrow> 0 < r \<Longrightarrow>
   getitem_0_all out = Inr \<lparr>shape = [d], data = take d (data out)\<rparr>"
  by (simp add: getitem_0_all_def getitem_def)

lemma getitem_0_all_not_assertion:
  "getitem_0_all out \<noteq> Inl (AssertionError msg)"
  by (auto simp: getitem_0_all_def getitem_def split: list.splits)

lemma take_drop_concat_nth:
  assumes "\<forall>xs \<in> set xss. length xs = m" and "k < length xss"
  shows "take m (drop (k * m) (concat xss)) = xss ! k"
  using assms
proof (induction xss arbitrary: k)
  case Nil
  then show ?case by simp
next
  case (Cons xs xss)
  show ?case
  proof (cases k)
    case 0
    with Cons.prems show ?thesis by simp
  next
    case (Suc j)
    with Cons.prems have "j < length xss" and "\<forall>ys \<in> set xss. length ys = m"
      and "length xs = m" by simp_all
    with Cons.IH [of j] Suc show ?thesis by simp
  qed
qed

lemma np_array_same_shape:
  assumes "imgs \<noteq> []" and "\<forall>img \<in> set imgs. shape img = s"
  shows "np_array imgs = Inr \<lparr>shape = length imgs # s, data = concat (map data imgs)\<rparr>"
  using assms by (cases imgs) (auto simp: np_array_def list_all_iff)

lemma squeeze_no_unit:
  fixes a :: "'a ndarray"
  shows "1 \<notin> set (shape a) \<Longrightarrow> squeeze a = a"
proof -
  assume "1 \<notin> set (shape a)"
  then have "filter (\<lambda>d. d \<noteq> 1) (shape a) = shape a"
    by (intro filter_True) auto
  then show ?thesis by (simp add: squeeze_def)
qed

lemma normalize_single:
  "preprocess_batch_or_single_input (Single a) =
     Inr (if length (shape (squeeze a)) = 3 then expand_dims0 (squeeze a) else squeeze a)"
  by (simp add: preprocess_batch_or_single_input_def Let_def)

lemma squeeze_squeeze: "squeeze (squeeze a) = squeeze a"
  by (simp add: squeeze_def)

lemma squeeze_expand_dims0: "squeeze (expand_dims0 a) = squeeze a"
  by (simp add: squeeze_def expand_dims0_def)

lemma normalize_idempotent:
  "preprocess_batch_or_single_input (Single a) = Inr b \<Longrightarrow>
   preprocess_batch_or_single_input (Single b) = Inr b"
  by (auto simp: normalize_single squeeze_squeeze squeeze_expand_dims0 split: if_splits)

section \<open>The batch dispatcher\<close>

text \<open>
  C1. On a four-dimensional batch whose first dimension is 1, with a non-empty model
  name, \<^verbatim>\<open>_predict_internal\<close> drops the batch axis, calls the legacy path exactly once, on
  the image so obtained and with \<^verbatim>\<open>training=False\<close>, and returns \<^verbatim>\<open>[0, :]\<close> of what that
  call gives (an exception of the call is passed on). The image handed over is the one
  item of the batch. When the legacy path answers with a matrix of \<open>r \<ge> 1\<close> rows of
  \<open>d\<close> predictions, as a Keras model does, the result is the one-dimensional vector of
  its first row.
\<close>

theorem predict_internal_single:
  fixes img_batch :: "'a ndarray"
  assumes "model_name self = Assigned (Some name)" and "name \<noteq> []"
    and "shape img_batch = [1, h, w, c]"
  shows "predict_internal self img_batch =
           (case model_call (model self) \<lparr>shape = [h, w, c], data = data img_batch\<rparr> False of
              Inl m \<Rightarrow> Inl (External m)
            | Inr out \<Rightarrow> getitem_0_all out,
            [LegacyCall \<lparr>shape = [h, w, c], data = data img_batch\<rparr> False])
       \<and> (well_formed img_batch \<longrightarrow>
            getitem img_batch 0 = Inr \<lparr>shape = [h, w, c], data = data img_batch\<rparr>)
       \<and> (\<forall>out r d.
            model_call (model self) \<lparr>shape = [h, w, c], data = data img_batch\<rparr> False = Inr out
            \<and> shape out = [r, d] \<and> 0 < r \<longrightarrow>
            fst (predict_internal self img_batch) = Inr \<lparr>shape = [d], data = take d (data out)\<rparr>)"
proof -
  from assms(3) have sq:
    "squeeze_axis0 img_batch = Inr \<lparr>shape = [h, w, c], data = data img_batch\<rparr>"
    by (simp add: squeeze_axis0_unit)
  from assms sq have main: "predict_internal self img_batch =
           (case model_call (model self) \<lparr>shape = [h, w, c], data = data img_batch\<rparr> False of
              Inl m \<Rightarrow> Inl (External m)
            | Inr out \<Rightarrow> getitem_0_all out,
            [LegacyCall \<lparr>shape = [h, w, c], data = data img_batch\<rparr> False])"
    by (simp add: predict_internal_def truthy_def ndim_def)
  have item: "well_formed img_batch \<longrightarrow>
            getitem img_batch 0 = Inr \<lparr>shape = [h, w, c], data = data img_batch\<rparr>"
    using assms(3) by (simp add: getitem_0_unit)
  have row: "\<forall>out r d.
            model_call (model self) \<lparr>shape = [h, w, c], data = data img_batch\<rparr> False = Inr out
            \<and> shape out = [r, d] \<and> 0 < r \<longrightarrow>
            fst (predict_internal self img_batch) = Inr \<lparr>shape = [d], data = take d (data out)\<rparr>"
    by (simp add: main getitem_0_all_matrix)
  from main item row show ?thesis by blast
qed

text \<open>
  An instance of C1: the legacy path answers with the 1 x 2 matrix of the first two
  elements of the image.
\<close>

theorem predict_internal_single_witness:
  "predict_internal
     \<lparr>model = \<lparr>model_call = (\<lambda>x t. Inr \<lparr>shape = [1, 2], data = take 2 (data x)\<rparr>),
                predict_on_batch = (\<lambda>x. Inl ''unused'')\<rparr>,
      model_name = Assigned (Some ''Age'')\<rparr>
     \<lparr>shape = [1, 2, 2, 1], data = [5, 6, 7, 8 :: nat]\<rparr> =
     (Inr \<lparr>shape = [2], data = [5, 6]\<rparr>,
      [LegacyCall \<lparr>shape = [2, 2, 1], data = [5, 6, 7, 8]\<rparr> False])"
  using predict_internal_single
      [of "\<lparr>model = \<lparr>model_call = (\<lambda>x t. Inr \<lparr>shape = [1, 2], data = take 2 (data x)\<rparr>),
                predict_on_batch = (\<lambda>x. Inl ''unused'')\<rparr>,
            model_name = Assigned (Some ''Age'')\<rparr>" "''Age''"
          "\<lparr>shape = [1, 2, 2, 1], data = [5, 6, 7, 8 :: nat]\<rparr>" 2 2 1]
  by (simp add: getitem_0_all_def getitem_def)

text \<open>
  C2. On a four-dimensional batch whose first dimension is greater than 1, with a
  non-empty model name, \<^verbatim>\<open>_predict_internal\<close> calls \<^verbatim>\<open>predict_on_batch\<close> exactly once, on
  the whole batch, and returns what that call returns, untouched: the array has the
  shape the native path gave it, one row of predictions for each of the \<open>n\<close> images
  for a Keras model.
\<close>

theorem predict_internal_batch:
  fixes img_batch :: "'a ndarray"
  assumes "model_name self = Assigned (Some name)" and "name \<noteq> []"
    and "shape img_batch = [n, h, w, c]" and "1 < n"
  shows "predict_internal self img_batch =
           (case predict_on_batch (model self) img_batch of
              Inl m \<Rightarrow> Inl (External m)
            | Inr out \<Rightarrow> Inr out,
            [BatchCall img_batch])
       \<and> (\<forall>out. predict_on_batch (model self) img_batch = Inr out \<longrightarrow>
            predict_internal self img_batch = (Inr out, [BatchCall img_batch]))"
  using assms by (simp add: predict_internal_def truthy_def ndim_def)

text \<open>
  An instance of C2: the native path answers with a 2 x 1 matrix.
\<close>

theorem predict_internal_batch_witness:
  "predict_internal
     \<lparr>model = \<lparr>model_call = (\<lambda>x t. Inl ''unused''),
                predict_on_batch = (\<lambda>x. Inr \<lparr>shape = [2, 1], data = [hd (data x), last (data x)]\<rparr>)\<rparr>,
      model_name = Assigned (Some ''Age'')\<rparr>
     \<lparr>shape = [2, 1, 2, 1], data = [5, 6, 7, 8 :: nat]\<rparr> =
     (Inr \<lparr>shape = [2, 1], data = [5, 8]\<rparr>,
      [BatchCall \<lparr>shape = [2, 1, 2, 1], data = [5, 6, 7, 8]\<rparr>])"
  using predict_internal_batch
      [of "\<lparr>model = \<lparr>model_call = (\<lambda>x t. Inl ''unused''),
                predict_on_batch = (\<lambda>x. Inr \<lparr>shape = [2, 1], data = [hd (data x), last (data x)]\<rparr>)\<rparr>,
      model_name = Assigned (Some ''Age'')\<rparr>" "''Age''"
          "\<lparr>shape = [2, 1, 2, 1], data = [5, 6, 7, 8 :: nat]\<rparr>" 2 1 2 1]
  by simp

section \<open>The shape normalizer\<close>

text \<open>
  C3, as the code has it. A single three-dimensional image of shape \<open>(h, w, c)\<close> none of
  whose dimensions is 1 comes back with shape \<open>(1, h, w, c)\<close> and the same elements.
\<close>

theorem normalize_single_image:
  fixes img :: "'a ndarray"
  assumes "shape img = [h, w, c]" and "h \<noteq> 1" and "w \<noteq> 1" and "c \<noteq> 1"
  shows "preprocess_batch_or_single_input (Single img) =
           Inr \<lparr>shape = [1, h, w, c], data = data img\<rparr>"
  using assms by (simp add: normalize_single squeeze_def expand_dims0_def)

theorem normalize_single_image_witness:
  "preprocess_batch_or_single_input (Single \<lparr>shape = [2, 2, 3], data = [1, 2, 3, 4, 5, 6, 7, 8, 9, 10, 11, 12 :: nat]\<rparr>) =
     Inr \<lparr>shape = [1, 2, 2, 3], data = [1, 2, 3, 4, 5, 6, 7, 8, 9, 10, 11, 12]\<rparr>"
  using normalize_single_image
    [of "\<lparr>shape = [2, 2, 3], data = [1, 2, 3, 4, 5, 6, 7, 8, 9, 10, 11, 12 :: nat]\<rparr>" 2 2 3]
  by simp

text \<open>
  C3 as stated fails when a dimension is 1: the image of shape \<open>(1, 2, 3)\<close> is squeezed
  to \<open>(2, 3)\<close>, which has two dimensions, so no batch axis is added and the result is
  not of shape \<open>(1, 1, 2, 3)\<close>.
\<close>

theorem normalize_single_image_counterexample:
  "preprocess_batch_or_single_input (Single \<lparr>shape = [1, 2, 3], data = [1, 2, 3, 4, 5, 6 :: nat]\<rparr>) =
     Inr \<lparr>shape = [2, 3], data = [1, 2, 3, 4, 5, 6]\<rparr>
   \<and> preprocess_batch_or_single_input (Single \<lparr>shape = [1, 2, 3], data = [1, 2, 3, 4, 5, 6 :: nat]\<rparr>) \<noteq>
     Inr \<lparr>shape = [1, 1, 2, 3], data = [1, 2, 3, 4, 5, 6]\<rparr>"
  by (simp add: preprocess_batch_or_single_input_def squeeze_def expand_dims0_def)

text \<open>
  C4, as the code has it. A single grayscale image of shape \<open>(h, w, 1)\<close> with
  \<open>h > 1\<close> and \<open>w > 1\<close> comes back with shape \<open>(h, w)\<close> and the same elements: the
  channel axis is squeezed away, two dimensions remain, and the batch axis is added
  only when three remain.
\<close>

theorem normalize_grayscale:
  fixes img :: "'a ndarray"
  assumes "shape img = [h, w, 1]" and "1 < h" and "1 < w"
  shows "preprocess_batch_or_single_input (Single img) =
           Inr \<lparr>shape = [h, w], data = data img\<rparr>"
proof -
  from assms have "h \<noteq> 1" and "w \<noteq> 1" by simp_all
  with assms(1) show ?thesis
    by (simp add: normalize_single squeeze_def)
qed

theorem normalize_grayscale_witness:
  "preprocess_batch_or_single_input (Single \<lparr>shape = [3, 2, 1], data = [1, 2, 3, 4, 5, 6 :: nat]\<rparr>) =
     Inr \<lparr>shape = [3, 2], data = [1, 2, 3, 4, 5, 6]\<rparr>"
  using normalize_grayscale [of "\<lparr>shape = [3, 2, 1], data = [1, 2, 3, 4, 5, 6 :: nat]\<rparr>" 3 2]
  by simp

text \<open>
  C4 as stated fails: the image of shape \<open>(2, 2, 1)\<close> comes back with shape
  \<open>(2, 2)\<close>, not \<open>(1, 2, 2)\<close>.
\<close>

theorem normalize_grayscale_counterexample:
  "preprocess_batch_or_single_input (Single \<lparr>shape = [2, 2, 1], data = [1, 2, 3, 4 :: nat]\<rparr>) =
     Inr \<lparr>shape = [2, 2], data = [1, 2, 3, 4]\<rparr>
   \<and> preprocess_batch_or_single_input (Single \<lparr>shape = [2, 2, 1], data = [1, 2, 3, 4 :: nat]\<rparr>) \<noteq>
     Inr \<lparr>shape = [1, 2, 2], data = [1, 2, 3, 4]\<rparr>"
  by (simp add: preprocess_batch_or_single_input_def squeeze_def expand_dims0_def)

text \<open>
  C5, as the code has it. A non-empty list of well-formed images of one shape
  \<open>(h, w, c)\<close>, none of \<open>h\<close>, \<open>w\<close>, \<open>c\<close> being 1, is stacked in the order of the list
  into an array of shape \<open>(k, h, w, c)\<close>, \<open>k\<close> the length of the list, whose \<open>i\<close>-th
  item is the \<open>i\<close>-th image of the list.
\<close>

theorem normalize_list:
  fixes imgs :: "'a ndarray list"
  assumes "imgs \<noteq> []"
    and "\<forall>img \<in> set imgs. shape img = [h, w, c] \<and> well_formed img"
    and "h \<noteq> 1" and "w \<noteq> 1" and "c \<noteq> 1"
  shows "preprocess_batch_or_single_input (ImageList imgs) =
           Inr \<lparr>shape = [length imgs, h, w, c], data = concat (map data imgs)\<rparr>
       \<and> (\<forall>k < length imgs.
            getitem \<lparr>shape = [length imgs, h, w, c], data = concat (map data imgs)\<rparr> k =
              Inr (imgs ! k))"
proof (intro conjI allI impI)
  from assms(1,2) have stacked:
    "np_array imgs = Inr \<lparr>shape = [length imgs, h, w, c], data = concat (map data imgs)\<rparr>"
    by (simp add: np_array_same_shape)
  from assms(3-5) show "preprocess_batch_or_single_input (ImageList imgs) =
           Inr \<lparr>shape = [length imgs, h, w, c], data = concat (map data imgs)\<rparr>"
    by (simp add: preprocess_batch_or_single_input_def stacked squeeze_def expand_dims0_def)
next
  fix k
  assume k: "k < length imgs"
  let ?m = "h * w * c"
  from assms(2) have len: "\<forall>xs \<in> set (map data imgs). length xs = ?m"
    by (auto simp: well_formed_def)
  from k have "take ?m (drop (k * ?m) (concat (map data imgs))) = data (imgs ! k)"
    using take_drop_concat_nth [OF len, of k] by simp
  moreover from k assms(2) have "shape (imgs ! k) = [h, w, c]"
    by simp
  ultimately show
    "getitem \<lparr>shape = [length imgs, h, w, c], data = concat (map data imgs)\<rparr> k =
       Inr (imgs ! k)"
    using k by (simp add: getitem_def mult.assoc)
qed

theorem normalize_list_witness:
  "preprocess_batch_or_single_input
     (ImageList [\<lparr>shape = [2, 2, 2], data = [1, 2, 3, 4, 5, 6, 7, 8 :: nat]\<rparr>,
                 \<lparr>shape = [2, 2, 2], data = [11, 12, 13, 14, 15, 16, 17, 18]\<rparr>]) =
     Inr \<lparr>shape = [2, 2, 2, 2],
          data = [1, 2, 3, 4, 5, 6, 7, 8, 11, 12, 13, 14, 15, 16, 17, 18]\<rparr>
   \<and> getitem \<lparr>shape = [2, 2, 2, 2],
               data = [1, 2, 3, 4, 5, 6, 7, 8, 11, 12, 13, 14, 15, 16, 17, 18 :: nat]\<rparr> 1 =
     Inr \<lparr>shape = [2, 2, 2], data = [11, 12, 13, 14, 15, 16, 17, 18]\<rparr>"
proof -
  let ?imgs = "[\<lparr>shape = [2, 2, 2], data = [1, 2, 3, 4, 5, 6, 7, 8 :: nat]\<rparr>,
                \<lparr>shape = [2, 2, 2], data = [11, 12, 13, 14, 15, 16, 17, 18]\<rparr>]"
  have both: "preprocess_batch_or_single_input (ImageList ?imgs) =
           Inr \<lparr>shape = [length ?imgs, 2, 2, 2], data = concat (map data ?imgs)\<rparr>
       \<and> (\<forall>k < length ?imgs.
            getitem \<lparr>shape = [length ?imgs, 2, 2, 2], data = concat (map data ?imgs)\<rparr> k =
              Inr (?imgs ! k))"
    by (rule normalize_list) (simp_all add: well_formed_def)
  from both have stacked: "preprocess_batch_or_single_input (ImageList ?imgs) =
     Inr \<lparr>shape = [2, 2, 2, 2],
          data = [1, 2, 3, 4, 5, 6, 7, 8, 11, 12, 13, 14, 15, 16, 17, 18]\<rparr>"
    by simp
  from both [THEN conjunct2, THEN spec, of 1]
  have second: "getitem \<lparr>shape = [2, 2, 2, 2],
               data = [1, 2, 3, 4, 5, 6, 7, 8, 11, 12, 13, 14, 15, 16, 17, 18 :: nat]\<rparr> 1 =
     Inr \<lparr>shape = [2, 2, 2], data = [11, 12, 13, 14, 15, 16, 17, 18]\<rparr>"
    by (simp add: numeral_2_eq_2)
  from stacked second show ?thesis by (rule conjI)
qed

text \<open>
  C5 as stated fails when a dimension of the images is 1: two images of shape
  \<open>(2, 2, 1)\<close> are stacked to \<open>(2, 2, 2, 1)\<close>, squeezed to \<open>(2, 2, 2)\<close> and, three
  dimensions remaining, given a batch axis: the result has shape \<open>(1, 2, 2, 2)\<close>.
\<close>

theorem normalize_list_counterexample:
  "preprocess_batch_or_single_input
     (ImageList [\<lparr>shape = [2, 2, 1], data = [1, 2, 3, 4 :: nat]\<rparr>,
                 \<lparr>shape = [2, 2, 1], data = [5, 6, 7, 8]\<rparr>]) =
     Inr \<lparr>shape = [1, 2, 2, 2], data = [1, 2, 3, 4, 5, 6, 7, 8]\<rparr>
   \<and> preprocess_batch_or_single_input
     (ImageList [\<lparr>shape = [2, 2, 1], data = [1, 2, 3, 4 :: nat]\<rparr>,
                 \<lparr>shape = [2, 2, 1], data = [5, 6, 7, 8]\<rparr>]) \<noteq>
     Inr \<lparr>shape = [2, 2, 2, 1], data = [1, 2, 3, 4, 5, 6, 7, 8]\<rparr>"
  by (simp add: preprocess_batch_or_single_input_def np_array_def squeeze_def expand_dims0_def)

text \<open>
  C6, as the code has it. A batch of shape \<open>(n, h, w, c)\<close> with \<open>n > 1\<close> comes back
  unchanged when none of \<open>h\<close>, \<open>w\<close>, \<open>c\<close> is 1; and normalizing the normalized batch
  gives the normalized batch again, whatever \<open>h\<close>, \<open>w\<close> and \<open>c\<close> are.
\<close>

theorem normalize_batch:
  fixes batch :: "'a ndarray"
  assumes "shape batch = [n, h, w, c]" and "1 < n"
  shows "(h \<noteq> 1 \<and> w \<noteq> 1 \<and> c \<noteq> 1 \<longrightarrow>
            preprocess_batch_or_single_input (Single batch) = Inr batch)
       \<and> (case preprocess_batch_or_single_input (Single batch) of
            Inl e \<Rightarrow> Inl e
          | Inr once \<Rightarrow> preprocess_batch_or_single_input (Single once)) =
           preprocess_batch_or_single_input (Single batch)"
proof (intro conjI impI)
  assume "h \<noteq> 1 \<and> w \<noteq> 1 \<and> c \<noteq> 1"
  with assms have "squeeze batch = batch"
    by (intro squeeze_no_unit) auto
  with assms(1) show "preprocess_batch_or_single_input (Single batch) = Inr batch"
    by (simp add: normalize_single)
next
  show "(case preprocess_batch_or_single_input (Single batch) of
            Inl e \<Rightarrow> Inl e
          | Inr once \<Rightarrow> preprocess_batch_or_single_input (Single once)) =
           preprocess_batch_or_single_input (Single batch)"
    by (auto split: sum.splits dest: normalize_idempotent)
qed

theorem normalize_batch_witness:
  "preprocess_batch_or_single_input
     (Single \<lparr>shape = [2, 2, 2, 2],
              data = [1, 2, 3, 4, 5, 6, 7, 8, 9, 10, 11, 12, 13, 14, 15, 16 :: nat]\<rparr>) =
     Inr \<lparr>shape = [2, 2, 2, 2],
          data = [1, 2, 3, 4, 5, 6, 7, 8, 9, 10, 11, 12, 13, 14, 15, 16]\<rparr>"
  using normalize_batch
    [of "\<lparr>shape = [2, 2, 2, 2],
          data = [1, 2, 3, 4, 5, 6, 7, 8, 9, 10, 11, 12, 13, 14, 15, 16 :: nat]\<rparr>" 2 2 2 2]
  by simp

text \<open>
  C6 as stated fails when a dimension is 1: the batch of shape \<open>(2, 2, 2, 1)\<close> comes
  back with shape \<open>(1, 2, 2, 2)\<close>.
\<close>

theorem normalize_batch_counterexample:
  "preprocess_batch_or_single_input
     (Single \<lparr>shape = [2, 2, 2, 1], data = [1, 2, 3, 4, 5, 6, 7, 8 :: nat]\<rparr>) =
     Inr \<lparr>shape = [1, 2, 2, 2], data = [1, 2, 3, 4, 5, 6, 7, 8]\<rparr>
   \<and> preprocess_batch_or_single_input
     (Single \<lparr>shape = [2, 2, 2, 1], data = [1, 2, 3, 4, 5, 6, 7, 8 :: nat]\<rparr>) \<noteq>
     Inr \<lparr>shape = [2, 2, 2, 1], data = [1, 2, 3, 4, 5, 6, 7, 8]\<rparr>"
  by (simp add: preprocess_batch_or_single_input_def squeeze_def expand_dims0_def)

section \<open>The dispatcher's guards\<close>

text \<open>
  With a model name assigned to the empty string or to \<^verbatim>\<open>None\<close>, \<^verbatim>\<open>_predict_internal\<close>
  raises NotImplementedError for every input array, whatever its number of dimensions,
  and it has made no call to the inference object.
\<close>

lemma predict_internal_unconfigured:
  assumes "model_name self = Assigned None \<or> model_name self = Assigned (Some [])"
  shows "predict_internal self img_batch =
           (Inl (NotImplementedError ''virtual method must not be called directly''), [])"
  using assms by (auto simp: predict_internal_def truthy_def)

text \<open>
  C7. The guard is meant for a call on an object that is not a configured model, and
  its error is the NotImplementedError. On an instance whose model name is absent,
  that is, was never assigned, the code does not get there: for every input array,
  whatever its number of dimensions, reading \<^verbatim>\<open>self.model_name\<close> raises AttributeError,
  before the shape check and before any call to the inference object.
\<close>

theorem predict_internal_unassigned_name:
  assumes "model_name self = Unassigned"
  shows "predict_internal self img_batch = (Inl (AttributeError ''model_name''), [])
       \<and> fst (predict_internal self img_batch) \<noteq>
           Inl (NotImplementedError ''virtual method must not be called directly'')"
  using assms by (simp add: predict_internal_def)

theorem predict_internal_unassigned_name_witness:
  "predict_internal
     \<lparr>model = \<lparr>model_call = (\<lambda>x t. Inr x), predict_on_batch = (\<lambda>x. Inr x)\<rparr>,
      model_name = Unassigned\<rparr>
     \<lparr>shape = [2, 2], data = [1, 2, 3, 4 :: nat]\<rparr> =
     (Inl (AttributeError ''model_name''), [])
   \<and> fst (predict_internal
     \<lparr>model = \<lparr>model_call = (\<lambda>x t. Inr x), predict_on_batch = (\<lambda>x. Inr x)\<rparr>,
      model_name = Unassigned\<rparr>
     \<lparr>shape = [2, 2], data = [1, 2, 3, 4 :: nat]\<rparr>) \<noteq>
     Inl (NotImplementedError ''virtual method must not be called directly'')"
  by (rule predict_internal_unassigned_name) simp

text \<open>
  C8. With a non-empty model name, an input that does not have exactly four dimensions
  makes \<^verbatim>\<open>_predict_internal\<close> raise the AssertionError with the message
  \<^verbatim>\<open>expected 4-dimensional tensor input\<close> before any call to the inference object; and
  on an input with four dimensions no AssertionError of the function is raised. The
  \<^verbatim>\<open>assert\<close> statement is taken as executed (Python without \<^verbatim>\<open>-O\<close>).
\<close>

theorem predict_internal_assertion:
  assumes "model_name self = Assigned (Some name)" and "name \<noteq> []"
  shows "(ndim img_batch \<noteq> 4 \<longrightarrow>
            predict_internal self img_batch =
              (Inl (AssertionError ''expected 4-dimensional tensor input''), []))
       \<and> (ndim img_batch = 4 \<longrightarrow>
            (\<forall>msg. fst (predict_internal self img_batch) \<noteq> Inl (AssertionError msg)))"
proof (intro conjI impI allI)
  assume "ndim img_batch \<noteq> 4"
  with assms show "predict_internal self img_batch =
      (Inl (AssertionError ''expected 4-dimensional tensor input''), [])"
    by (simp add: predict_internal_def truthy_def)
next
  fix msg
  assume four: "ndim img_batch = 4"
  then obtain n rest where sh: "shape img_batch = n # rest"
    by (cases "shape img_batch") (auto simp: ndim_def)
  show "fst (predict_internal self img_batch) \<noteq> Inl (AssertionError msg)"
  proof (cases "n = 1")
    case True
    with sh have sq: "squeeze_axis0 img_batch = Inr \<lparr>shape = rest, data = data img_batch\<rparr>"
      by (simp add: squeeze_axis0_unit)
    from assms four sh True sq show ?thesis
      by (auto simp: predict_internal_def truthy_def getitem_0_all_not_assertion
               split: sum.splits)
  next
    case False
    with assms four sh show ?thesis
      by (auto simp: predict_internal_def truthy_def split: sum.splits)
  qed
qed

theorem predict_internal_assertion_witness:
  "predict_internal
     \<lparr>model = \<lparr>model_call = (\<lambda>x t. Inr x), predict_on_batch = (\<lambda>x. Inr x)\<rparr>,
      model_name = Assigned (Some ''Age'')\<rparr>
     \<lparr>shape = [2, 2, 1], data = [1, 2, 3, 4 :: nat]\<rparr> =
     (Inl (AssertionError ''expected 4-dimensional tensor input''), [])
   \<and> (\<forall>msg. fst (predict_internal
        \<lparr>model = \<lparr>model_call = (\<lambda>x t. Inr x), predict_on_batch = (\<lambda>x. Inr x)\<rparr>,
         model_name = Assigned (Some ''Age'')\<rparr>
        \<lparr>shape = [1, 2, 2, 1], data = [1, 2, 3, 4 :: nat]\<rparr>) \<noteq> Inl (AssertionError msg))"
  using predict_internal_assertion
      [of "\<lparr>model = \<lparr>model_call = (\<lambda>x t. Inr x), predict_on_batch = (\<lambda>x. Inr x)\<rparr>,
            model_name = Assigned (Some ''Age'')\<rparr>" "''Age''"
          "\<lparr>shape = [2, 2, 1], data = [1, 2, 3, 4 :: nat]\<rparr>"]
    predict_internal_assertion
      [of "\<lparr>model = \<lparr>model_call = (\<lambda>x t. Inr x), predict_on_batch = (\<lambda>x. Inr x)\<rparr>,
            model_name = Assigned (Some ''Age'')\<rparr>" "''Age''"
          "\<lparr>shape = [1, 2, 2, 1], data = [1, 2, 3, 4 :: nat]\<rparr>"]
  by (simp add: ndim_def)

text \<open>
  C10, as the code has it. A two-dimensional array of shape \<open>(h, w)\<close> with \<open>h > 1\<close>
  and \<open>w > 1\<close> comes back from the normalizer unchanged, and \<^verbatim>\<open>_predict_internal\<close> of a
  model with a non-empty name raises the four-dimensions AssertionError on it, without
  a call to the inference object.
\<close>

theorem normalize_bare_grayscale:
  fixes img :: "'a ndarray"
  assumes "shape img = [h, w]" and "1 < h" and "1 < w"
    and "model_name self = Assigned (Some name)" and "name \<noteq> []"
  shows "preprocess_batch_or_single_input (Single img) = Inr img
       \<and> predict_internal self img =
           (Inl (AssertionError ''expected 4-dimensional tensor input''), [])"
proof
  from assms(1-3) have "squeeze img = img"
    by (intro squeeze_no_unit) auto
  with assms(1) show "preprocess_batch_or_single_input (Single img) = Inr img"
    by (simp add: normalize_single)
next
  from assms show "predict_internal self img =
           (Inl (AssertionError ''expected 4-dimensional tensor input''), [])"
    by (simp add: predict_internal_def truthy_def ndim_def)
qed

theorem normalize_bare_grayscale_witness:
  "preprocess_batch_or_single_input (Single \<lparr>shape = [3, 2], data = [1, 2, 3, 4, 5, 6 :: nat]\<rparr>) =
     Inr \<lparr>shape = [3, 2], data = [1, 2, 3, 4, 5, 6]\<rparr>
   \<and> predict_internal
       \<lparr>model = \<lparr>model_call = (\<lambda>x t. Inr x), predict_on_batch = (\<lambda>x. Inr x)\<rparr>,
        model_name = Assigned (Some ''Gender'')\<rparr>
       \<lparr>shape = [3, 2], data = [1, 2, 3, 4, 5, 6 :: nat]\<rparr> =
     (Inl (AssertionError ''expected 4-dimensional tensor input''), [])"
  using normalize_bare_grayscale
    [of "\<lparr>shape = [3, 2], data = [1, 2, 3, 4, 5, 6 :: nat]\<rparr>" 3 2
        "\<lparr>model = \<lparr>model_call = (\<lambda>x t. Inr x), predict_on_batch = (\<lambda>x. Inr x)\<rparr>,
          model_name = Assigned (Some ''Gender'')\<rparr>" "''Gender''"]
  by simp

text \<open>
  C10 as stated, for every call, fails when the model name is empty: the name is checked
  before the number of dimensions, so the error is the NotImplementedError.
\<close>

theorem normalize_bare_grayscale_counterexample:
  "preprocess_batch_or_single_input (Single \<lparr>shape = [2, 3], data = [1, 2, 3, 4, 5, 6 :: nat]\<rparr>) =
     Inr \<lparr>shape = [2, 3], data = [1, 2, 3, 4, 5, 6]\<rparr>
   \<and> predict_internal
       \<lparr>model = \<lparr>model_call = (\<lambda>x t. Inr x), predict_on_batch = (\<lambda>x. Inr x)\<rparr>,
        model_name = Assigned (Some [])\<rparr>
       \<lparr>shape = [2, 3], data = [1, 2, 3, 4, 5, 6 :: nat]\<rparr> =
     (Inl (NotImplementedError ''virtual method must not be called directly''), [])"
  by (simp add: preprocess_batch_or_single_input_def squeeze_def predict_internal_def truthy_def)

section \<open>Buffalo L rejects batches\<close>

text \<open>
  C9. On a four-dimensional input whose first dimension is greater than 1,
  \<^verbatim>\<open>Buffalo_L.preprocess\<close> raises the ValueError that rejects batches, so no image with
  converted channels comes out of it; \<^verbatim>\<open>Buffalo_L.forward\<close> raises the same error and has
  not called \<^verbatim>\<open>get_feat\<close>.
\<close>

theorem buffalo_rejects_batch:
  fixes img :: "'a ndarray"
  assumes "shape img = [n, h, w, c]" and "1 < n"
  shows "preprocess img =
           Inl (ValueError ''Buffalo_L model expects a single image, not a batch.'')
       \<and> forward self img =
           (Inl (ValueError ''Buffalo_L model expects a single image, not a batch.''), [])"
  using assms by (simp add: preprocess_def forward_def)

theorem buffalo_rejects_batch_witness:
  "preprocess \<lparr>shape = [2, 1, 1, 3], data = [1, 2, 3, 4, 5, 6 :: nat]\<rparr> =
     Inl (ValueError ''Buffalo_L model expects a single image, not a batch.'')
   \<and> forward
       \<lparr>buffalo_model = (\<lambda>x. Inr (EmbArray x)), input_shape = (112, 112), output_shape = 512\<rparr>
       \<lparr>shape = [2, 1, 1, 3], data = [1, 2, 3, 4, 5, 6 :: nat]\<rparr> =
     (Inl (ValueError ''Buffalo_L model expects a single image, not a batch.''), [])"
  using buffalo_rejects_batch
    [of "\<lparr>shape = [2, 1, 1, 3], data = [1, 2, 3, 4, 5, 6 :: nat]\<rparr>" 2 1 1 3
        "\<lparr>buffalo_model = (\<lambda>x. Inr (EmbArray x)), input_shape = (112, 112), output_shape = 512\<rparr>"]
  by simp

end
